theory Spec2Isabelle
  imports Main "HOL-Library.Sublist"
begin

section \<open>Python values, exceptions and traced results\<close>

text \<open>
  The values that cross the interfaces of \<^verbatim>\<open>email_filter.py\<close> are JSON-like Python values:
  the arguments of a tool call, a tool's input schema, the payload \<^verbatim>\<open>json.loads\<close> returns and the
  records \<^verbatim>\<open>filter_emails\<close> collects. A Python \<^verbatim>\<open>dict\<close> keeps insertion order, so it is an
  association list. A category result is such a value too: a sentinel is the string \<open>JStr s\<close>.
\<close>

datatype json =
    JNull
  | JBool bool
  | JInt int
  | JStr string
  | JList "json list"
  | JDict "(string \<times> json) list"

text \<open>
  The exceptions the module can meet. All of them are subclasses of Python's \<^verbatim>\<open>Exception\<close>,
  which is what every \<^verbatim>\<open>except Exception\<close> clause of the module catches; \<open>OtherException\<close>
  stands for any other such subclass raised by a collaborator.
\<close>

datatype exn =
    NameError string
  | TypeError
  | IndexError
  | AttributeError
  | JSONDecodeError
  | GoogleAPIError string
  | OtherException string

text \<open>
  An attribute of a content part of a tool result: the object may not have the attribute at
  all (reading it raises \<^verbatim>\<open>AttributeError\<close>), or hold \<^verbatim>\<open>None\<close>, or hold a string.
\<close>

datatype attr = Absent | PyNone | PyStr string

record content_part =
  part_text :: attr
  part_tool_code :: attr

record call_tool_result =
  content :: "content_part list"

record tool =
  tool_name :: string
  tool_description :: string
  tool_inputSchema :: "(string \<times> json) list"

text \<open>The model backend's reply: \<^verbatim>\<open>response.candidates[i].content.parts\<close> and \<^verbatim>\<open>response.text\<close>.\<close>

record fn_call =
  call_name :: string
  call_args :: "(string \<times> json) list"

record gemini_part =
  function_call :: "fn_call option"
  gemini_text :: "string option"

record response =
  candidates :: "gemini_part list list"
  response_text :: "string option"

text \<open>
  A part of a turn is either a plain \<^verbatim>\<open>dict\<close> such as \<^verbatim>\<open>{"text": ...}\<close>, or the part object the
  model backend returned, stored as it is (line 103).
\<close>

datatype part = DictPart json | RawPart gemini_part

record turn =
  role :: string
  parts :: "part list"

record fn_declaration =
  decl_name :: string
  decl_description :: string
  decl_parameters :: "(string \<times> json) list"

datatype gemini_tool = Tool "fn_declaration list"

text \<open>
  The two transports: \<^verbatim>\<open>http_client(HttpServerParameters(base_url=...))\<close> and
  \<^verbatim>\<open>stdio_client(StdioServerParameters(command=..., args=..., env=...))\<close>.
\<close>

datatype transport =
    HttpClient string
  | StdioClient string "string list" "(string \<times> string option) list option"

text \<open>The calls to collaborators that a run makes, in order.\<close>

datatype event =
    Construct transport
  | EnterTransport
  | EnterSession
  | Initialize
  | ListTools
  | GenerateContent "turn list" "gemini_tool list"
  | CallTool string "(string \<times> json) list"

text \<open>
  The collaborators. Each field is the outcome of one call the module makes: \<open>Inl e\<close> when
  the call raises \<open>e\<close>. \<^verbatim>\<open>json.loads\<close> yields \<open>None\<close> where it raises \<^verbatim>\<open>JSONDecodeError\<close>;
  \<open>str_of_part\<close> is \<^verbatim>\<open>str(part)\<close>. Leaving an \<^verbatim>\<open>async with\<close> block is taken not to raise.
\<close>

record environment =
  enter_transport :: "transport \<Rightarrow> exn + unit"
  enter_session :: "exn + unit"
  initialize :: "exn + unit"
  list_tools :: "exn + tool list"
  generate_content :: "turn list \<Rightarrow> gemini_tool list \<Rightarrow> exn + response"
  call_tool :: "string \<Rightarrow> (string \<times> json) list \<Rightarrow> exn + call_tool_result"
  json_loads :: "string \<Rightarrow> json option"
  str_of_part :: "content_part \<Rightarrow> string"

text \<open>A run yields the calls it made and either the exception it raised or its value.\<close>

type_synonym 'a res = "event list \<times> (exn + 'a)"

definition ret :: "'a \<Rightarrow> 'a res" where
  "ret v = ([], Inr v)"

definition raise :: "exn \<Rightarrow> 'a res" where
  "raise e = ([], Inl e)"

definition emit :: "event \<Rightarrow> exn + 'a \<Rightarrow> 'a res" where
  "emit ev outcome = ([ev], outcome)"

definition and_then :: "'a res \<Rightarrow> ('a \<Rightarrow> 'b res) \<Rightarrow> 'b res" where
  "and_then m f =
     (case m of
        (t, Inl e) \<Rightarrow> (t, Inl e)
      | (t, Inr v) \<Rightarrow> (case f v of (t', r) \<Rightarrow> (t @ t', r)))"

definition try_except :: "'a res \<Rightarrow> (exn \<Rightarrow> 'a res) \<Rightarrow> 'a res" where
  "try_except m handler =
     (case m of
        (t, Inl e) \<Rightarrow> (case handler e of (t', r) \<Rightarrow> (t @ t', r))
      | (t, Inr v) \<Rightarrow> (t, Inr v))"

definition getenv :: "(string \<Rightarrow> string option) \<Rightarrow> string \<Rightarrow> string \<Rightarrow> string" where
  "getenv environ k d = (case environ k of None \<Rightarrow> d | Some v \<Rightarrow> v)"

text \<open>Line 21: the module reads the base URL once, with a default.\<close>

definition MCP_SERVER_BASE_URL :: "(string \<Rightarrow> string option) \<Rightarrow> string" where
  "MCP_SERVER_BASE_URL environ = getenv environ ''MCP_SERVER_URL'' ''http://localhost:8000/mcp''"

section \<open>\<^verbatim>\<open>filter_emails\<close> (lines 138 to 200)\<close>

definition gmail_tool_name :: string where
  "gmail_tool_name = ''gmail_fetch_emails''"

definition dummy_args :: "(string \<times> json) list" where
  "dummy_args = [(''query'', JStr ''unread''), (''max_results'', JInt 10)]"

text \<open>Lines 143 to 153: the transport \<^verbatim>\<open>filter_emails\<close> constructs.\<close>

definition filter_client_context :: "string \<Rightarrow> (string \<Rightarrow> string option) \<Rightarrow> transport" where
  "filter_client_context base_url environ =
     (if base_url \<noteq> [] \<and> prefix ''http'' base_url
      then HttpClient base_url
      else StdioClient (getenv environ ''MCP_STDIO_GMAIL_COMMAND'' ''mcp-gmail-tool'')
             [''--connection_type'', ''stdio''] None)"

text \<open>
  Lines 174 to 186: one round of the loop over the content parts, giving the record that is
  appended to \<open>fetched_data\<close>. A string is truthy when it is not empty, \<^verbatim>\<open>None\<close> is falsy;
  reading an attribute the part does not have raises \<^verbatim>\<open>AttributeError\<close>.
\<close>

definition classify_part :: "environment \<Rightarrow> content_part \<Rightarrow> exn + json" where
  "classify_part env p =
     (case part_text p of
        Absent \<Rightarrow> Inl AttributeError
      | PyStr (c # cs) \<Rightarrow>
          (case json_loads env (c # cs) of
             Some v \<Rightarrow> Inr v
           | None \<Rightarrow> Inr (JDict [(''raw_text'', JStr (c # cs)), (''error'', JStr ''not_json'')]))
      | _ \<Rightarrow>
          (case part_tool_code p of
             Absent \<Rightarrow> Inl AttributeError
           | PyStr (c # cs) \<Rightarrow> Inr (JDict [(''tool_code'', JStr (c # cs))])
           | _ \<Rightarrow> Inr (JDict [(''unknown_part'', JStr (str_of_part env p))])))"

text \<open>Lines 173 to 186: the loop, \<open>fetched_data\<close> being the accumulator; an exception leaves it.\<close>

fun classify_parts :: "environment \<Rightarrow> content_part list \<Rightarrow> json list \<Rightarrow> exn + json list" where
  "classify_parts env [] fetched_data = Inr fetched_data"
| "classify_parts env (p # ps) fetched_data =
     (case classify_part env p of
        Inl e \<Rightarrow> Inl e
      | Inr r \<Rightarrow> classify_parts env ps (fetched_data @ [r]))"

definition filter_emails ::
  "string \<Rightarrow> (string \<Rightarrow> string option) \<Rightarrow> environment \<Rightarrow> json list res" where
  "filter_emails base_url environ env =
     (let mcp_client_context = filter_client_context base_url environ in
      and_then (emit (Construct mcp_client_context) (Inr ())) (\<lambda>_.
      try_except
        (and_then (emit EnterTransport (enter_transport env mcp_client_context)) (\<lambda>_.
         and_then (emit EnterSession (enter_session env)) (\<lambda>_.
         and_then (emit Initialize (initialize env)) (\<lambda>_.
         and_then (emit ListTools (list_tools env)) (\<lambda>available_tools.
           let tool_names = map tool_name available_tools in
           if gmail_tool_name \<in> set tool_names then
             try_except
               (and_then (emit (CallTool gmail_tool_name dummy_args)
                            (call_tool env gmail_tool_name dummy_args)) (\<lambda>result.
                  if content result \<noteq> []
                  then ([], classify_parts env (content result) [])
                  else ret []))
               (\<lambda>e. ret [JDict [(''error'', JStr (''Failed to call '' @ gmail_tool_name))]])
           else
             ret [JDict [(''error'', JStr (''Tool '' @ gmail_tool_name @ '' not found''))]])))))
        (\<lambda>e. ret [JDict [(''error'', JStr ''MCP client session failed for filtering'')]])))"

section \<open>\<^verbatim>\<open>categorize_email\<close> (lines 23 to 135)\<close>

text \<open>
  Line 31 formats \<^verbatim>\<open>json.dumps(contents_payload, indent=2)\<close> into a log message, before the
  \<^verbatim>\<open>try\<close> of line 47. \<^verbatim>\<open>json.dumps\<close> serialises dicts, lists and strings; on any other object,
  such as a part object of the model backend, it raises \<^verbatim>\<open>TypeError\<close>.
\<close>

fun part_serializable :: "part \<Rightarrow> bool" where
  "part_serializable (DictPart d) = True"
| "part_serializable (RawPart p) = False"

definition turn_serializable :: "turn \<Rightarrow> bool" where
  "turn_serializable t = list_all part_serializable (parts t)"

definition json_dumps :: "turn list \<Rightarrow> unit res" where
  "json_dumps payload = (if list_all turn_serializable payload then ret () else raise TypeError)"

text \<open>Lines 34 to 45: the transport \<^verbatim>\<open>categorize_email\<close> constructs.\<close>

definition categorize_client_context :: "string \<Rightarrow> (string \<Rightarrow> string option) \<Rightarrow> transport" where
  "categorize_client_context base_url environ =
     (if base_url \<noteq> [] \<and> prefix ''http'' base_url
      then HttpClient base_url
      else StdioClient (getenv environ ''MCP_STDIO_COMMAND'' ''mcp-flight-search'')
             [''--connection_type'', ''stdio'']
             (Some [(''SERP_API_KEY'', environ ''SERP_API_KEY'')]))"

text \<open>
  Lines 55 to 70 build a list \<open>tools\<close> from \<^verbatim>\<open>mcp_tools.tools\<close>. The name \<^verbatim>\<open>mcp_tools\<close> is bound
  nowhere: it is no parameter and no local variable of \<^verbatim>\<open>categorize_email\<close> (the response of
  line 53 is \<^verbatim>\<open>mcp_tools_response\<close>), so Python looks it up among the module's globals, which
  are the names below, and then among the builtins, and raises \<^verbatim>\<open>NameError\<close>. The statement
  stands between line 53 and line 72 inside the \<^verbatim>\<open>try\<close> of line 47. It is written one
  level to the left of its neighbours, so that line 72 is indented deeper than the statement
  before it, which Python refuses; the statements are taken here in the order in which they
  are written.
\<close>

definition module_globals :: "string list" where
  "module_globals =
     [''asyncio'', ''os'', ''json'', ''base64'', ''logging'', ''load_dotenv'', ''genai'',
      ''google_exceptions'', ''types'', ''ClientSession'', ''StdioServerParameters'',
      ''stdio_client'', ''HttpServerParameters'', ''http_client'', ''GEMINI_API_KEY'',
      ''MCP_SERVER_BASE_URL'', ''categorize_email'', ''filter_emails'', ''main'']"

definition load_global :: "string \<Rightarrow> unit res" where
  "load_global n = (if n \<in> set module_globals then ret () else raise (NameError n))"

definition tools_block :: "unit res" where
  "tools_block = load_global ''mcp_tools''"

text \<open>Lines 72 to 87: one declaration per discovered tool, two schema keys removed.\<close>

definition adapt_tool :: "tool \<Rightarrow> gemini_tool" where
  "adapt_tool t =
     Tool [\<lparr>decl_name = tool_name t,
            decl_description = tool_description t,
            decl_parameters =
              filter (\<lambda>(k, v). k \<notin> set [''additionalProperties'', ''$schema''])
                (tool_inputSchema t)\<rparr>]"

text \<open>\<^verbatim>\<open>xs[0]\<close>: \<^verbatim>\<open>IndexError\<close> on an empty list.\<close>

definition first :: "'a list \<Rightarrow> 'a res" where
  "first xs = (case xs of [] \<Rightarrow> raise IndexError | x # _ \<Rightarrow> ret x)"

text \<open>Line 114: \<^verbatim>\<open>json.loads(tool_result.content[0].text)\<close>.\<close>

definition decode_tool_result :: "environment \<Rightarrow> call_tool_result \<Rightarrow> json res" where
  "decode_tool_result env tool_result =
     and_then (first (content tool_result)) (\<lambda>p.
       case part_text p of
         Absent \<Rightarrow> raise AttributeError
       | PyNone \<Rightarrow> raise TypeError
       | PyStr s \<Rightarrow>
           (case json_loads env s of
              None \<Rightarrow> raise JSONDecodeError
            | Some category_data \<Rightarrow> ret category_data))"

definition text_turn :: "string \<Rightarrow> string \<Rightarrow> turn" where
  "text_turn r s = \<lparr>role = r, parts = [DictPart (JDict [(''text'', JStr s)])]\<rparr>"

text \<open>
  Lines 72 to 130: the request to the model backend and what follows it. An exception that no
  clause here catches goes to the \<^verbatim>\<open>except\<close> of line 131.
\<close>

definition model_block ::
  "environment \<Rightarrow> turn list \<Rightarrow> turn \<Rightarrow> turn list \<Rightarrow> tool list \<Rightarrow> (json \<times> turn list) res" where
  "model_block env current_history user_prompt_part contents_payload mcp_tools_response =
     (let tools_for_gemini = map adapt_tool mcp_tools_response in
      and_then (emit (GenerateContent contents_payload tools_for_gemini)
                  (Inr (generate_content env contents_payload tools_for_gemini))) (\<lambda>outcome.
      case outcome of
        Inl e \<Rightarrow>
          ret (JStr ''unknown_category_error_gemini_api'',
               current_history @ [user_prompt_part, text_turn ''model'' ''Error calling Gemini.''])
      | Inr response \<Rightarrow>
          and_then (first (candidates response)) (\<lambda>candidate.
          and_then (first candidate) (\<lambda>model_response_part.
            let updated_history =
                  current_history @
                    [user_prompt_part, \<lparr>role = ''model'', parts = [RawPart model_response_part]\<rparr>]
            in
            case function_call model_response_part of
              Some fc \<Rightarrow>
                try_except
                  (and_then (emit (CallTool (call_name fc) (call_args fc))
                               (call_tool env (call_name fc) (call_args fc))) (\<lambda>tool_result.
                     try_except
                       (and_then (decode_tool_result env tool_result) (\<lambda>category_data.
                          ret (category_data, updated_history)))
                       (\<lambda>e. case e of
                           JSONDecodeError \<Rightarrow> ret (JStr ''error_mcp_json_decode'', updated_history)
                         | IndexError \<Rightarrow> ret (JStr ''error_mcp_result_structure'', updated_history)
                         | AttributeError \<Rightarrow> ret (JStr ''error_mcp_result_structure'', updated_history)
                         | _ \<Rightarrow> raise e)))
                  (\<lambda>e. ret (JStr (''error_calling_mcp_tool_'' @ call_name fc), updated_history))
            | None \<Rightarrow>
                (case response_text response of
                   Some (c # cs) \<Rightarrow> ret (JStr (c # cs), updated_history)
                 | _ \<Rightarrow> ret (JStr ''unknown_no_function_call_or_text'', updated_history))))))"

text \<open>
  Line 28, \<^verbatim>\<open>list(history or [])\<close>: \<open>history\<close> is \<open>None\<close> when the caller leaves the argument
  out, and the copy is then the empty list.
\<close>

definition history_or_empty :: "turn list option \<Rightarrow> turn list" where
  "history_or_empty history = (case history of None \<Rightarrow> [] | Some h \<Rightarrow> h)"

text \<open>Line 29: the user turn that wraps the email body.\<close>

definition user_turn :: "string \<Rightarrow> turn" where
  "user_turn email_body = text_turn ''user'' (''Categorize the following email: '' @ email_body)"

text \<open>
  The function. \<open>base_url\<close> is the module's \<^verbatim>\<open>MCP_SERVER_BASE_URL\<close> and \<open>environ\<close> the process
  environment.
\<close>

definition categorize_email ::
  "string \<Rightarrow> (string \<Rightarrow> string option) \<Rightarrow> environment \<Rightarrow> string \<Rightarrow> turn list option
     \<Rightarrow> (json \<times> turn list) res" where
  "categorize_email base_url environ env email_body history =
     (let current_history = history_or_empty history;
          user_prompt_part = user_turn email_body;
          contents_payload = current_history @ [user_prompt_part]
      in
      and_then (json_dumps contents_payload) (\<lambda>_.
      let mcp_client_context = categorize_client_context base_url environ in
      and_then (emit (Construct mcp_client_context) (Inr ())) (\<lambda>_.
      try_except
        (and_then (emit EnterTransport (enter_transport env mcp_client_context)) (\<lambda>_.
         and_then (emit EnterSession (enter_session env)) (\<lambda>_.
         and_then (emit Initialize (initialize env)) (\<lambda>_.
         and_then (emit ListTools (list_tools env)) (\<lambda>mcp_tools_response.
         and_then tools_block (\<lambda>_.
           model_block env current_history user_prompt_part contents_payload
             mcp_tools_response))))))
        (\<lambda>e. ret (JStr ''error_mcp_session_categorization'',
                   current_history @
                     [user_prompt_part, text_turn ''model'' ''Error in MCP session.''])))))"

section \<open>Traces\<close>

fun is_call_tool :: "event \<Rightarrow> bool" where
  "is_call_tool (CallTool n a) = True"
| "is_call_tool ev = False"

fun is_generate_content :: "event \<Rightarrow> bool" where
  "is_generate_content (GenerateContent c t) = True"
| "is_generate_content ev = False"

text \<open>The transports a run constructed, in order.\<close>

fun constructed :: "event list \<Rightarrow> transport list" where
  "constructed [] = []"
| "constructed (Construct t # evs) = t # constructed evs"
| "constructed (ev # evs) = constructed evs"

section \<open>The history as a list object\<close>

text \<open>
  A Python list is an object that several names can share, so that a change made through one
  is seen through the others. The store holds the list objects; a reference is an index into
  it. The statements of \<^verbatim>\<open>categorize_email\<close> are taken once more, now with every list a
  reference into the store: a step yields the calls it made, its outcome and the store it
  leaves, and the store a step leaves stays as it is when a later step raises.
\<close>

type_synonym ref = nat

type_synonym heap = "turn list list"

type_synonym 'a prog = "heap \<Rightarrow> 'a res \<times> heap"

text \<open>A step that touches no list.\<close>

definition lift :: "'a res \<Rightarrow> 'a prog" where
  "lift m heap = (m, heap)"

definition then_heap :: "'a prog \<Rightarrow> ('a \<Rightarrow> 'b prog) \<Rightarrow> 'b prog" where
  "then_heap m f heap =
     (case m heap of
        ((t, Inl e), heap1) \<Rightarrow> ((t, Inl e), heap1)
      | ((t, Inr v), heap1) \<Rightarrow> (case f v heap1 of ((t', r), heap2) \<Rightarrow> ((t @ t', r), heap2)))"

definition try_heap :: "'a prog \<Rightarrow> (exn \<Rightarrow> 'a prog) \<Rightarrow> 'a prog" where
  "try_heap m handler heap =
     (case m heap of
        ((t, Inl e), heap1) \<Rightarrow>
          (case handler e heap1 of ((t', r), heap2) \<Rightarrow> ((t @ t', r), heap2))
      | ((t, Inr v), heap1) \<Rightarrow> ((t, Inr v), heap1))"

text \<open>A new list object is put behind the objects that exist.\<close>

definition new_list :: "turn list \<Rightarrow> ref prog" where
  "new_list xs heap = (ret (length heap), heap @ [xs])"

text \<open>
  Line 28, \<^verbatim>\<open>list(history or [])\<close>: a new object that holds the turns of the caller's list, or no
  turn when the caller gave none.
\<close>

definition list_of :: "ref option \<Rightarrow> ref prog" where
  "list_of history heap = new_list (case history of None \<Rightarrow> [] | Some r \<Rightarrow> heap ! r) heap"

text \<open>
  \<^verbatim>\<open>xs + [a, b]\<close> in lines 30, 99, 103 and 134: a new object that holds the turns of \<open>xs\<close> and
  then those of the list display.
\<close>

definition list_plus :: "ref \<Rightarrow> turn list \<Rightarrow> ref prog" where
  "list_plus r xs heap = new_list (heap ! r @ xs) heap"

text \<open>Line 31 reads the payload.\<close>

definition json_dumps_heap :: "ref \<Rightarrow> unit prog" where
  "json_dumps_heap payload heap = (json_dumps (heap ! payload), heap)"

text \<open>
  Lines 90 to 94 hand the list object \<open>contents_payload\<close> to the model backend, which is free to
  change the object it is handed: \<open>backend_writes\<close> is what it leaves in it.
\<close>

definition generate_content_heap ::
  "environment \<Rightarrow> (turn list \<Rightarrow> turn list) \<Rightarrow> ref \<Rightarrow> gemini_tool list
     \<Rightarrow> (exn + response) prog" where
  "generate_content_heap env backend_writes contents tools heap =
     (emit (GenerateContent (heap ! contents) tools)
        (Inr (generate_content env (heap ! contents) tools)),
      heap[contents := backend_writes (heap ! contents)])"

text \<open>Lines 72 to 130.\<close>

definition model_block_heap ::
  "environment \<Rightarrow> (turn list \<Rightarrow> turn list) \<Rightarrow> ref \<Rightarrow> turn \<Rightarrow> ref \<Rightarrow> tool list
     \<Rightarrow> (json \<times> ref) prog" where
  "model_block_heap env backend_writes current_history user_prompt_part contents_payload
       mcp_tools_response =
     (let tools_for_gemini = map adapt_tool mcp_tools_response in
      then_heap (generate_content_heap env backend_writes contents_payload tools_for_gemini)
        (\<lambda>outcome.
      case outcome of
        Inl e \<Rightarrow>
          then_heap (list_plus current_history
                       [user_prompt_part, text_turn ''model'' ''Error calling Gemini.''])
            (\<lambda>updated_history.
          lift (ret (JStr ''unknown_category_error_gemini_api'', updated_history)))
      | Inr response \<Rightarrow>
          then_heap (lift (first (candidates response))) (\<lambda>candidate.
          then_heap (lift (first candidate)) (\<lambda>model_response_part.
          then_heap (list_plus current_history
                       [user_prompt_part,
                        \<lparr>role = ''model'', parts = [RawPart model_response_part]\<rparr>])
            (\<lambda>updated_history.
          lift
            (case function_call model_response_part of
               Some fc \<Rightarrow>
                 try_except
                   (and_then (emit (CallTool (call_name fc) (call_args fc))
                                (call_tool env (call_name fc) (call_args fc))) (\<lambda>tool_result.
                      try_except
                        (and_then (decode_tool_result env tool_result) (\<lambda>category_data.
                           ret (category_data, updated_history)))
                        (\<lambda>e. case e of
                            JSONDecodeError \<Rightarrow> ret (JStr ''error_mcp_json_decode'', updated_history)
                          | IndexError \<Rightarrow> ret (JStr ''error_mcp_result_structure'', updated_history)
                          | AttributeError \<Rightarrow>
                              ret (JStr ''error_mcp_result_structure'', updated_history)
                          | _ \<Rightarrow> raise e)))
                   (\<lambda>e. ret (JStr (''error_calling_mcp_tool_'' @ call_name fc), updated_history))
             | None \<Rightarrow>
                 (case response_text response of
                    Some (c # cs) \<Rightarrow> ret (JStr (c # cs), updated_history)
                  | _ \<Rightarrow> ret (JStr ''unknown_no_function_call_or_text'', updated_history))))))))"

text \<open>Lines 23 to 135. The caller's history is a reference, or \<open>None\<close>.\<close>

definition categorize_email_heap ::
  "string \<Rightarrow> (string \<Rightarrow> string option) \<Rightarrow> environment \<Rightarrow> (turn list \<Rightarrow> turn list) \<Rightarrow> string
     \<Rightarrow> ref option \<Rightarrow> (json \<times> ref) prog" where
  "categorize_email_heap base_url environ env backend_writes email_body history =
     then_heap (list_of history) (\<lambda>current_history.
     let user_prompt_part = user_turn email_body in
     then_heap (list_plus current_history [user_prompt_part]) (\<lambda>contents_payload.
     then_heap (json_dumps_heap contents_payload) (\<lambda>_.
     let mcp_client_context = categorize_client_context base_url environ in
     then_heap (lift (emit (Construct mcp_client_context) (Inr ()))) (\<lambda>_.
     try_heap
       (then_heap (lift (emit EnterTransport (enter_transport env mcp_client_context))) (\<lambda>_.
        then_heap (lift (emit EnterSession (enter_session env))) (\<lambda>_.
        then_heap (lift (emit Initialize (initialize env))) (\<lambda>_.
        then_heap (lift (emit ListTools (list_tools env))) (\<lambda>mcp_tools_response.
        then_heap (lift tools_block) (\<lambda>_.
          model_block_heap env backend_writes current_history user_prompt_part
            contents_payload mcp_tools_response))))))
       (\<lambda>e.
          then_heap (list_plus current_history
                       [user_prompt_part, text_turn ''model'' ''Error in MCP session.''])
            (\<lambda>updated_history.
          lift (ret (JStr ''error_mcp_session_categorization'', updated_history))))))))"

text \<open>A model backend that empties the list it is handed.\<close>

definition backend_clears :: "turn list \<Rightarrow> turn list" where
  "backend_clears contents = []"

section \<open>The words of the specification on the transport value\<close>

text \<open>
  The specification speaks of a value that is URL-like, one that begins with a URL scheme
  marker: here, a value in which \<^verbatim>\<open>://\<close> follows at least one character.
\<close>

fun spec_url_like :: "string \<Rightarrow> bool" where
  "spec_url_like [] = False"
| "spec_url_like (c # cs) = (prefix ''://'' cs \<or> spec_url_like cs)"

section \<open>Collaborators of the module's tests\<close>

text \<open>
  The collaborators that \<^verbatim>\<open>test_email_filter.py\<close> builds with mocks: a session that opens and
  advertises no tool, a model backend that asks for the tool \<^verbatim>\<open>test_tool\<close>, and a tool whose
  first content part is the text of a JSON object.
\<close>

definition promotions_text :: string where
  \<open>promotions_text = ''{"category": "promotions"}''\<close>

definition mock_json_loads :: "string \<Rightarrow> json option" where
  "mock_json_loads s =
     (if s = promotions_text then Some (JDict [(''category'', JStr ''promotions'')]) else None)"

definition mock_function_call_part :: gemini_part where
  "mock_function_call_part =
     \<lparr>function_call = Some \<lparr>call_name = ''test_tool'', call_args = [(''param'', JStr ''val'')]\<rparr>,
      gemini_text = None\<rparr>"

definition mock_env :: environment where
  "mock_env =
     \<lparr>enter_transport = (\<lambda>t. Inr ()),
      enter_session = Inr (),
      initialize = Inr (),
      list_tools = Inr [],
      generate_content =
        (\<lambda>c t. Inr \<lparr>candidates = [[mock_function_call_part]], response_text = None\<rparr>),
      call_tool =
        (\<lambda>n a. Inr \<lparr>content = [\<lparr>part_text = PyStr promotions_text, part_tool_code = PyNone\<rparr>]\<rparr>),
      json_loads = mock_json_loads,
      str_of_part = (\<lambda>p. ''part'')\<rparr>"

text \<open>The model backend of \<^verbatim>\<open>test_model_returns_direct_text\<close>.\<close>

definition mock_direct_text_part :: gemini_part where
  "mock_direct_text_part = \<lparr>function_call = None, gemini_text = Some ''direct_category''\<rparr>"

definition mock_direct_text_env :: environment where
  "mock_direct_text_env =
     mock_env\<lparr>generate_content :=
       (\<lambda>c t. Inr \<lparr>candidates = [[mock_direct_text_part]],
                     response_text = Some ''direct_category''\<rparr>)\<rparr>"

text \<open>The transport of \<^verbatim>\<open>test_mcp_session_error_categorize\<close>, which fails to start.\<close>

definition mock_session_error_env :: environment where
  "mock_session_error_env =
     mock_env\<lparr>enter_transport := (\<lambda>t. Inl (OtherException ''Stdio client failed to start''))\<rparr>"

text \<open>The sessions of the tests of \<^verbatim>\<open>filter_emails\<close>: the tool is advertised; its call may fail.\<close>

definition mock_gmail_tools :: "tool list" where
  "mock_gmail_tools =
     [\<lparr>tool_name = ''gmail_fetch_emails'', tool_description = ''fetch'', tool_inputSchema = []\<rparr>]"

definition mock_gmail_env :: environment where
  "mock_gmail_env = mock_env\<lparr>list_tools := Inr mock_gmail_tools\<rparr>"

definition mock_gmail_error_env :: environment where
  "mock_gmail_error_env =
     mock_gmail_env\<lparr>call_tool := (\<lambda>n a. Inl (OtherException ''Tool call kaboom''))\<rparr>"

text \<open>The history of \<^verbatim>\<open>test_context_history_usage\<close>.\<close>

definition initial_history :: "turn list" where
  "initial_history = [text_turn ''user'' ''Hello model'', text_turn ''model'' ''Hello user'']"

section \<open>Running the combinators\<close>

lemma snd_ret [simp]: "snd (ret v) = Inr v"
  by (simp add: ret_def)

lemma fst_ret [simp]: "fst (ret v) = []"
  by (simp add: ret_def)

lemma snd_raise [simp]: "snd (raise e) = Inl e"
  by (simp add: raise_def)

lemma fst_raise [simp]: "fst (raise e) = []"
  by (simp add: raise_def)

lemma snd_emit [simp]: "snd (emit ev outcome) = outcome"
  by (simp add: emit_def)

lemma fst_emit [simp]: "fst (emit ev outcome) = [ev]"
  by (simp add: emit_def)

lemma snd_and_then:
  "snd (and_then m f) = (case snd m of Inl e \<Rightarrow> Inl e | Inr v \<Rightarrow> snd (f v))"
  by (cases m) (auto simp: and_then_def split: sum.splits prod.splits)

lemma fst_and_then:
  "fst (and_then m f) = (case snd m of Inl e \<Rightarrow> fst m | Inr v \<Rightarrow> fst m @ fst (f v))"
  by (cases m) (auto simp: and_then_def split: sum.splits prod.splits)

lemma snd_try_except:
  "snd (try_except m h) = (case snd m of Inl e \<Rightarrow> snd (h e) | Inr v \<Rightarrow> Inr v)"
  by (cases m) (auto simp: try_except_def split: sum.splits prod.splits)

lemma fst_try_except:
  "fst (try_except m h) = (case snd m of Inl e \<Rightarrow> fst m @ fst (h e) | Inr v \<Rightarrow> fst m)"
  by (cases m) (auto simp: try_except_def split: sum.splits prod.splits)

lemmas run_simps = snd_and_then fst_and_then snd_try_except fst_try_except

lemma constructed_append [simp]: "constructed (xs @ ys) = constructed xs @ constructed ys"
  by (induction xs rule: constructed.induct) simp_all

lemma role_text_turn [simp]: "role (text_turn r s) = r"
  by (simp add: text_turn_def)

lemma user_turn_serializable [simp]: "turn_serializable (user_turn b)"
  by (simp add: user_turn_def text_turn_def turn_serializable_def)

lemma fst_json_dumps [simp]: "fst (json_dumps p) = []"
  by (simp add: json_dumps_def)

lemma snd_json_dumps:
  "snd (json_dumps p) = (if list_all turn_serializable p then Inr () else Inl TypeError)"
  by (simp add: json_dumps_def)

text \<open>The definitions a concrete run unfolds.\<close>

lemmas mock_defs = mock_env_def mock_direct_text_env_def mock_session_error_env_def
  mock_gmail_env_def mock_gmail_error_env_def mock_gmail_tools_def mock_json_loads_def
  promotions_text_def mock_function_call_part_def mock_direct_text_part_def

lemmas eval_defs = categorize_email_def filter_emails_def model_block_def decode_tool_result_def
  first_def json_dumps_def tools_block_def load_global_def module_globals_def
  categorize_client_context_def filter_client_context_def getenv_def text_turn_def
  turn_serializable_def and_then_def try_except_def emit_def ret_def raise_def Let_def
  gmail_tool_name_def dummy_args_def adapt_tool_def user_turn_def history_or_empty_def
  classify_part_def

section \<open>Lines 55 to 70 and what they cut off\<close>

text \<open>The statement of lines 55 to 70 raises on every run that reaches it.\<close>

lemma tools_block_raises: "tools_block = ([], Inl (NameError ''mcp_tools''))"
  by (simp add: tools_block_def load_global_def module_globals_def raise_def)

lemma fst_tools_block [simp]: "fst tools_block = []"
  by (simp add: tools_block_raises)

text \<open>
  So a run of \<^verbatim>\<open>categorize_email\<close> ends in one of two ways: the \<^verbatim>\<open>TypeError\<close> of line 31, or
  the return of line 135.
\<close>

lemma categorize_email_result:
  "snd (categorize_email base_url environ env email_body history) =
     (if list_all turn_serializable (history_or_empty history)
      then Inr (JStr ''error_mcp_session_categorization'',
                history_or_empty history @
                  [user_turn email_body, text_turn ''model'' ''Error in MCP session.''])
      else Inl TypeError)"
  by (simp add: categorize_email_def Let_def run_simps snd_json_dumps tools_block_raises
      split: sum.splits)

text \<open>
  Lines 72 to 130, taken by themselves, serve a function call and a direct text: were they
  reached, the tool would be called with the name and the arguments of the call and its
  decoded payload returned, and a text reply would be returned with no tool called.
\<close>

lemma model_block_serves_function_call:
  assumes "generate_content env payload (map adapt_tool ts) = Inr response"
    and "candidates response = (p # ps) # cs"
    and "function_call p = Some fc"
    and "call_tool env (call_name fc) (call_args fc) = Inr tool_result"
    and "content tool_result = cp # cps" and "part_text cp = PyStr s"
    and "json_loads env s = Some v"
  shows "model_block env H u payload ts =
     ([GenerateContent payload (map adapt_tool ts), CallTool (call_name fc) (call_args fc)],
      Inr (v, H @ [u, \<lparr>role = ''model'', parts = [RawPart p]\<rparr>]))"
  using assms by (simp add: eval_defs)

lemma model_block_serves_direct_text:
  assumes "generate_content env payload (map adapt_tool ts) = Inr response"
    and "candidates response = (p # ps) # cs"
    and "function_call p = None"
    and "response_text response = Some s" and "s \<noteq> []"
  shows "model_block env H u payload ts =
     ([GenerateContent payload (map adapt_tool ts)],
      Inr (JStr s, H @ [u, \<lparr>role = ''model'', parts = [RawPart p]\<rparr>]))"
  using assms by (cases s) (simp_all add: eval_defs)

lemma model_block_function_call:
  "model_block mock_env [] (user_turn ''Test email body'') [user_turn ''Test email body''] [] =
     ([GenerateContent [user_turn ''Test email body''] [],
       CallTool ''test_tool'' [(''param'', JStr ''val'')]],
      Inr (JDict [(''category'', JStr ''promotions'')],
           [user_turn ''Test email body'',
            \<lparr>role = ''model'', parts = [RawPart mock_function_call_part]\<rparr>]))"
  by (simp add: eval_defs mock_defs)

lemma model_block_direct_text:
  "model_block mock_direct_text_env [] (user_turn ''Direct text email'')
     [user_turn ''Direct text email''] [] =
     ([GenerateContent [user_turn ''Direct text email''] []],
      Inr (JStr ''direct_category'',
           [user_turn ''Direct text email'',
            \<lparr>role = ''model'', parts = [RawPart mock_direct_text_part]\<rparr>]))"
  by (simp add: eval_defs mock_defs)

section \<open>The history that \<^verbatim>\<open>categorize_email\<close> returns\<close>

text \<open>Every return of lines 72 to 130 appends the user turn and one model turn.\<close>

lemma model_block_shape:
  "snd (model_block env H u payload ts) = Inr (c, h') \<Longrightarrow>
     \<exists>m. h' = H @ [u, m] \<and> role m = ''model'' \<and>
       ((\<exists>p. parts m = [RawPart p]) \<or> (\<exists>s. m = text_turn ''model'' s))"
  by (auto simp: model_block_def run_simps Let_def first_def text_turn_def decode_tool_result_def
      split: sum.splits option.splits list.splits exn.splits attr.splits)

lemma model_block_invokes_backend:
  "filter is_generate_content (fst (model_block env H u payload ts)) =
     [GenerateContent payload (map adapt_tool ts)]"
  by (auto simp: model_block_def run_simps Let_def first_def text_turn_def decode_tool_result_def
      split: sum.splits option.splits list.splits exn.splits attr.splits)

lemma model_block_constructs_nothing:
  "constructed (fst (model_block env H u payload ts)) = []"
  by (auto simp: model_block_def run_simps Let_def first_def decode_tool_result_def
      split: sum.splits option.splits list.splits exn.splits attr.splits)

lemma categorize_email_shape:
  assumes "snd (categorize_email base_url environ env email_body history) =
             Inr (category, updated_history)"
  shows "\<exists>m. updated_history = history_or_empty history @ [user_turn email_body, m] \<and>
           role m = ''model'' \<and>
           ((\<exists>p. parts m = [RawPart p]) \<or> (\<exists>s. m = text_turn ''model'' s))"
  using assms
  by (fastforce simp: categorize_email_def Let_def run_simps
       dest!: model_block_shape split: sum.splits)

text \<open>
  Claim C1 says that for every history \<open>H\<close> and every email body \<^verbatim>\<open>categorize_email\<close> returns a
  history of length \<open>len(H) + 2\<close>, on every exit path. So does every return of the function
  and of lines 72 to 130, as \<open>categorize_email_shape\<close> and \<open>model_block_shape\<close> show. But not
  every exit is a return: given the history that
  \<^verbatim>\<open>test_successful_categorization_function_call_stdio\<close> expects of a first call, whose model
  turn holds the part the backend returned, the function leaves by the \<^verbatim>\<open>TypeError\<close> of line
  31 and hands back no history at all.
\<close>

theorem categorize_email_returns_no_history:
  "snd (categorize_email '''' (\<lambda>k. None) mock_env ''Second email''
          (Some [user_turn ''Test email body'',
                 \<lparr>role = ''model'', parts = [RawPart mock_function_call_part]\<rparr>])) =
     Inl TypeError \<and>
   (\<forall>category updated_history.
      snd (categorize_email '''' (\<lambda>k. None) mock_env ''Second email''
             (Some [user_turn ''Test email body'',
                    \<lparr>role = ''model'', parts = [RawPart mock_function_call_part]\<rparr>])) \<noteq>
        Inr (category, updated_history))"
  by (simp add: categorize_email_result history_or_empty_def turn_serializable_def)

text \<open>
  Claim C2 says that \<^verbatim>\<open>categorize_email\<close> never raises to its caller. The second call of the
  conversation of \<^verbatim>\<open>test_model_returns_direct_text\<close> does: the history the test expects the
  first call to return holds in its model turn the part the backend returned, line 31
  serialises the history for the log before the \<^verbatim>\<open>try\<close> of line 47 is entered, and the
  \<^verbatim>\<open>TypeError\<close> of \<^verbatim>\<open>json.dumps\<close> leaves the function, before any collaborator is called.
\<close>

theorem categorize_email_raises_on_model_part:
  "categorize_email ''http://localhost:8000/mcp'' (\<lambda>k. None) mock_direct_text_env ''Another email''
     (Some [user_turn ''Direct text email'',
            \<lparr>role = ''model'', parts = [RawPart mock_direct_text_part]\<rparr>])
   = ([], Inl TypeError)"
  by (simp add: eval_defs mock_defs)

text \<open>
  Claim C3 says that a function call of the model is served: the tool is called with the
  call's name and arguments, and the payload the tool's text decodes to is the category. On
  the collaborators of \<^verbatim>\<open>test_successful_categorization_function_call_stdio\<close> the run stops at
  lines 55 to 70 instead: the backend is never asked, no tool is called, and the result is the
  session sentinel.
\<close>

theorem categorize_email_function_call_not_served:
  "categorize_email '''' (\<lambda>k. None) mock_env ''Test email body'' None =
     ([Construct (StdioClient ''mcp-flight-search'' [''--connection_type'', ''stdio'']
                   (Some [(''SERP_API_KEY'', None)])),
       EnterTransport, EnterSession, Initialize, ListTools],
      Inr (JStr ''error_mcp_session_categorization'',
           [user_turn ''Test email body'', text_turn ''model'' ''Error in MCP session.'']))"
  by (simp add: eval_defs mock_defs)

section \<open>The session sentinel\<close>

text \<open>
  When entering the transport, entering the session or the \<^verbatim>\<open>initialize\<close> handshake raises,
  the model backend is not invoked and \<^verbatim>\<open>categorize_email\<close> returns the sentinel
  \<^verbatim>\<open>error_mcp_session_categorization\<close> with the old history, the user turn and the note
  \<^verbatim>\<open>Error in MCP session.\<close> (lines 131 to 135).
\<close>

lemma categorize_email_session_failure_handled:
  assumes "enter_transport env (categorize_client_context base_url environ) = Inl e \<or>
     enter_session env = Inl e \<or> initialize env = Inl e"
  shows "filter is_generate_content
           (fst (categorize_email base_url environ env email_body history)) = []"
    and "list_all turn_serializable (history_or_empty history) \<Longrightarrow>
         snd (categorize_email base_url environ env email_body history) =
           Inr (JStr ''error_mcp_session_categorization'',
                history_or_empty history @
                  [user_turn email_body, text_turn ''model'' ''Error in MCP session.''])"
  using assms
  by (auto simp: categorize_email_def Let_def run_simps snd_json_dumps split: sum.splits)

text \<open>No run of \<^verbatim>\<open>categorize_email\<close> invokes the model backend or calls a tool.\<close>

lemma categorize_email_never_invokes_backend:
  "filter is_generate_content
     (fst (categorize_email base_url environ env email_body history)) = []"
  by (auto simp: categorize_email_def Let_def run_simps snd_json_dumps tools_block_raises
      split: sum.splits)

lemma categorize_email_never_calls_tool:
  "filter is_call_tool (fst (categorize_email base_url environ env email_body history)) = []"
  by (auto simp: categorize_email_def Let_def run_simps snd_json_dumps tools_block_raises
      split: sum.splits)

text \<open>
  Claim C4 says that a failure of the transport, of the session or of the handshake gives the
  session sentinel, which the lemma above confirms, and that this is the only exit on which
  the model backend is never invoked. It is not: on a session that opens, answers the
  handshake and advertises its tools, lines 55 to 70 raise before the request of line 90, the
  backend is not invoked, and the function returns the same sentinel and the same note.
\<close>

theorem categorize_email_open_session_skips_backend:
  "enter_transport mock_gmail_env
     (categorize_client_context ''http://localhost:8000/mcp'' (\<lambda>k. None)) = Inr () \<and>
   enter_session mock_gmail_env = Inr () \<and>
   initialize mock_gmail_env = Inr () \<and>
   list_tools mock_gmail_env = Inr mock_gmail_tools \<and>
   categorize_email ''http://localhost:8000/mcp'' (\<lambda>k. None) mock_gmail_env
       ''Test email body http'' (Some initial_history) =
     ([Construct (HttpClient ''http://localhost:8000/mcp''),
       EnterTransport, EnterSession, Initialize, ListTools],
      Inr (JStr ''error_mcp_session_categorization'',
           initial_history @
             [user_turn ''Test email body http'', text_turn ''model'' ''Error in MCP session.'']))"
  by (simp add: eval_defs mock_defs initial_history_def)

section \<open>The choice of the transport\<close>

lemma filter_emails_constructs:
  "constructed (fst (filter_emails base_url environ env)) =
     [filter_client_context base_url environ]"
  by (simp add: filter_emails_def run_simps Let_def split: sum.splits)

lemma categorize_email_constructs:
  "constructed (fst (categorize_email base_url environ env email_body history)) =
     (if list_all turn_serializable (history_or_empty history)
      then [categorize_client_context base_url environ] else [])"
  by (simp add: categorize_email_def run_simps Let_def snd_json_dumps
      model_block_constructs_nothing split: sum.splits)

text \<open>
  Claim C5 as it is worded fails: the value \<^verbatim>\<open>httpfoo\<close> is not URL-like, and both functions
  select and construct the HTTP transport for it, since the test of lines 34 and 143 is that
  the value starts with the four characters \<^verbatim>\<open>http\<close>.
\<close>

theorem transport_selection_counterexample:
  "\<not> spec_url_like ''httpfoo'' \<and>
   filter_client_context ''httpfoo'' (\<lambda>k. None) = HttpClient ''httpfoo'' \<and>
   categorize_client_context ''httpfoo'' (\<lambda>k. None) = HttpClient ''httpfoo'' \<and>
   constructed (fst (filter_emails ''httpfoo'' (\<lambda>k. None) mock_gmail_env)) =
     [HttpClient ''httpfoo''] \<and>
   constructed (fst (categorize_email ''httpfoo'' (\<lambda>k. None) mock_gmail_env
                       ''Test email body'' None)) =
     [HttpClient ''httpfoo'']"
  by (simp add: eval_defs mock_defs)

text \<open>
  Claim C5, amended. The selection is a function of the base URL and the process environment
  and calls no collaborator. A base URL that starts with the four characters \<^verbatim>\<open>http\<close>, as
  every value of scheme \<^verbatim>\<open>http://\<close> or \<^verbatim>\<open>https://\<close> does, selects the HTTP transport; any other
  base URL, the empty one among them, selects the stdio transport. \<^verbatim>\<open>filter_emails\<close> constructs
  the selected transport and no other. \<^verbatim>\<open>categorize_email\<close> constructs no transport but the
  selected one, on every run, and constructs it once whenever line 31 can serialise the
  history.
\<close>

theorem transport_selection:
  "constructed (fst (filter_emails base_url environ env)) =
     [filter_client_context base_url environ] \<and>
   set (constructed (fst (categorize_email base_url environ env email_body history))) \<subseteq>
     {categorize_client_context base_url environ} \<and>
   (list_all turn_serializable (history_or_empty history) \<longrightarrow>
      constructed (fst (categorize_email base_url environ env email_body history)) =
        [categorize_client_context base_url environ]) \<and>
   (prefix ''http'' base_url \<longrightarrow>
      filter_client_context base_url environ = HttpClient base_url \<and>
      categorize_client_context base_url environ = HttpClient base_url) \<and>
   (prefix ''http://'' base_url \<or> prefix ''https://'' base_url \<longrightarrow>
      filter_client_context base_url environ = HttpClient base_url \<and>
      categorize_client_context base_url environ = HttpClient base_url) \<and>
   (\<not> prefix ''http'' base_url \<longrightarrow>
      filter_client_context base_url environ =
        StdioClient (getenv environ ''MCP_STDIO_GMAIL_COMMAND'' ''mcp-gmail-tool'')
          [''--connection_type'', ''stdio''] None \<and>
      categorize_client_context base_url environ =
        StdioClient (getenv environ ''MCP_STDIO_COMMAND'' ''mcp-flight-search'')
          [''--connection_type'', ''stdio'']
          (Some [(''SERP_API_KEY'', environ ''SERP_API_KEY'')])) \<and>
   \<not> prefix ''http'' ''''"
proof (intro conjI impI)
  show "constructed (fst (filter_emails base_url environ env)) =
     [filter_client_context base_url environ]"
    by (rule filter_emails_constructs)
  show "set (constructed (fst (categorize_email base_url environ env email_body history))) \<subseteq>
     {categorize_client_context base_url environ}"
    by (auto simp: categorize_email_constructs)
next
  assume "list_all turn_serializable (history_or_empty history)"
  then show "constructed (fst (categorize_email base_url environ env email_body history)) =
        [categorize_client_context base_url environ]"
    by (simp add: categorize_email_constructs)
next
  assume h: "prefix ''http'' base_url"
  then have "base_url \<noteq> []" by auto
  with h show "filter_client_context base_url environ = HttpClient base_url"
    and "categorize_client_context base_url environ = HttpClient base_url"
    by (simp_all add: filter_client_context_def categorize_client_context_def)
next
  assume "prefix ''http://'' base_url \<or> prefix ''https://'' base_url"
  then have h: "prefix ''http'' base_url"
    by (auto simp: prefix_def)
  then have "base_url \<noteq> []" by auto
  with h show "filter_client_context base_url environ = HttpClient base_url"
    and "categorize_client_context base_url environ = HttpClient base_url"
    by (simp_all add: filter_client_context_def categorize_client_context_def)
next
  assume "\<not> prefix ''http'' base_url"
  then show "filter_client_context base_url environ =
        StdioClient (getenv environ ''MCP_STDIO_GMAIL_COMMAND'' ''mcp-gmail-tool'')
          [''--connection_type'', ''stdio''] None"
    and "categorize_client_context base_url environ =
        StdioClient (getenv environ ''MCP_STDIO_COMMAND'' ''mcp-flight-search'')
          [''--connection_type'', ''stdio'']
          (Some [(''SERP_API_KEY'', environ ''SERP_API_KEY'')])"
    by (simp_all add: filter_client_context_def categorize_client_context_def)
next
  show "\<not> prefix ''http'' ''''" by simp
qed

theorem transport_selection_witness:
  "prefix ''http://'' ''http://localhost:8080/test_mcp_http'' \<and>
   list_all turn_serializable (history_or_empty None) \<and>
   constructed (fst (filter_emails ''http://localhost:8080/test_mcp_http'' (\<lambda>k. None)
                       mock_gmail_env)) =
     [HttpClient ''http://localhost:8080/test_mcp_http''] \<and>
   constructed (fst (categorize_email ''http://localhost:8080/test_mcp_http'' (\<lambda>k. None)
                       mock_gmail_env ''Test email body http'' None)) =
     [HttpClient ''http://localhost:8080/test_mcp_http''] \<and>
   \<not> prefix ''http'' '''' \<and>
   constructed (fst (filter_emails '''' (\<lambda>k. None) mock_gmail_env)) =
     [StdioClient ''mcp-gmail-tool'' [''--connection_type'', ''stdio''] None] \<and>
   constructed (fst (categorize_email '''' (\<lambda>k. None) mock_gmail_env
                       ''Test email body stdio'' None)) =
     [StdioClient ''mcp-flight-search'' [''--connection_type'', ''stdio'']
        (Some [(''SERP_API_KEY'', None)])]"
  using transport_selection
    [where base_url = "''http://localhost:8080/test_mcp_http''" and environ = "\<lambda>k. None"
       and env = mock_gmail_env and email_body = "''Test email body http''" and history = None]
    transport_selection
    [where base_url = "''''" and environ = "\<lambda>k. None"
       and env = mock_gmail_env and email_body = "''Test email body stdio''" and history = None]
  by (simp add: history_or_empty_def getenv_def)

text \<open>
  Claim C6 says that a direct text of the model is the category and that no tool is called.
  On the collaborators of \<^verbatim>\<open>test_model_returns_direct_text\<close> no tool is called indeed, but
  the backend is never asked either: the run stops at lines 55 to 70 and returns the session
  sentinel, with the error note where the text part should stand.
\<close>

theorem categorize_email_direct_text_not_served:
  "categorize_email '''' (\<lambda>k. None) mock_direct_text_env ''Direct text email'' None =
     ([Construct (StdioClient ''mcp-flight-search'' [''--connection_type'', ''stdio'']
                   (Some [(''SERP_API_KEY'', None)])),
       EnterTransport, EnterSession, Initialize, ListTools],
      Inr (JStr ''error_mcp_session_categorization'',
           [user_turn ''Direct text email'', text_turn ''model'' ''Error in MCP session.'']))"
  by (simp add: eval_defs mock_defs)

section \<open>\<^verbatim>\<open>filter_emails\<close>\<close>

text \<open>
  Claim C7. \<^verbatim>\<open>filter_emails\<close> returns a list on every run, whatever the collaborators do. When
  entering the transport, entering the session or the handshake raises, the list is the one
  marker \<^verbatim>\<open>MCP client session failed for filtering\<close>; when the session is open, the tool is
  advertised and its invocation raises, the list is the one marker
  \<^verbatim>\<open>Failed to call gmail_fetch_emails\<close>.
\<close>

theorem filter_emails_never_raises:
  "(\<exists>l. snd (filter_emails base_url environ env) = Inr l) \<and>
   ((enter_transport env (filter_client_context base_url environ) = Inl e \<or>
     enter_session env = Inl e \<or> initialize env = Inl e) \<longrightarrow>
      snd (filter_emails base_url environ env) =
        Inr [JDict [(''error'', JStr ''MCP client session failed for filtering'')]]) \<and>
   (enter_transport env (filter_client_context base_url environ) = Inr () \<and>
    enter_session env = Inr () \<and> initialize env = Inr () \<and>
    list_tools env = Inr available_tools \<and>
    ''gmail_fetch_emails'' \<in> set (map tool_name available_tools) \<and>
    call_tool env ''gmail_fetch_emails''
      [(''query'', JStr ''unread''), (''max_results'', JInt 10)] = Inl e' \<longrightarrow>
      snd (filter_emails base_url environ env) =
        Inr [JDict [(''error'', JStr ''Failed to call gmail_fetch_emails'')]])"
proof (intro conjI impI)
  show "\<exists>l. snd (filter_emails base_url environ env) = Inr l"
    by (auto simp: filter_emails_def run_simps Let_def split: sum.splits)
next
  assume "enter_transport env (filter_client_context base_url environ) = Inl e \<or>
     enter_session env = Inl e \<or> initialize env = Inl e"
  then show "snd (filter_emails base_url environ env) =
        Inr [JDict [(''error'', JStr ''MCP client session failed for filtering'')]]"
    by (auto simp: filter_emails_def run_simps Let_def split: sum.splits)
next
  assume "enter_transport env (filter_client_context base_url environ) = Inr () \<and>
    enter_session env = Inr () \<and> initialize env = Inr () \<and>
    list_tools env = Inr available_tools \<and>
    ''gmail_fetch_emails'' \<in> set (map tool_name available_tools) \<and>
    call_tool env ''gmail_fetch_emails''
      [(''query'', JStr ''unread''), (''max_results'', JInt 10)] = Inl e'"
  then show "snd (filter_emails base_url environ env) =
        Inr [JDict [(''error'', JStr ''Failed to call gmail_fetch_emails'')]]"
    by (simp add: filter_emails_def run_simps Let_def gmail_tool_name_def dummy_args_def)
qed

theorem filter_emails_never_raises_witness:
  "enter_transport mock_session_error_env (filter_client_context '''' (\<lambda>k. None)) =
     Inl (OtherException ''Stdio client failed to start'') \<and>
   snd (filter_emails '''' (\<lambda>k. None) mock_session_error_env) =
     Inr [JDict [(''error'', JStr ''MCP client session failed for filtering'')]] \<and>
   call_tool mock_gmail_error_env ''gmail_fetch_emails''
     [(''query'', JStr ''unread''), (''max_results'', JInt 10)] =
     Inl (OtherException ''Tool call kaboom'') \<and>
   snd (filter_emails '''' (\<lambda>k. None) mock_gmail_error_env) =
     Inr [JDict [(''error'', JStr ''Failed to call gmail_fetch_emails'')]]"
  using filter_emails_never_raises
    [where base_url = "''''" and environ = "\<lambda>k. None" and env = mock_session_error_env
       and e = "OtherException ''Stdio client failed to start''"]
    filter_emails_never_raises
    [where base_url = "''''" and environ = "\<lambda>k. None" and env = mock_gmail_error_env
       and available_tools = mock_gmail_tools
       and e' = "OtherException ''Tool call kaboom''"]
  by (simp add: mock_defs)

text \<open>
  Claim C8. When the session is open and discovery yields a tool list without the name
  \<^verbatim>\<open>gmail_fetch_emails\<close>, \<^verbatim>\<open>filter_emails\<close> returns the one marker
  \<^verbatim>\<open>Tool gmail_fetch_emails not found\<close> and calls no tool.
\<close>

theorem filter_emails_tool_not_found:
  assumes "enter_transport env (filter_client_context base_url environ) = Inr ()"
    and "enter_session env = Inr ()" and "initialize env = Inr ()"
    and "list_tools env = Inr available_tools"
    and "''gmail_fetch_emails'' \<notin> set (map tool_name available_tools)"
  shows "snd (filter_emails base_url environ env) =
           Inr [JDict [(''error'', JStr ''Tool gmail_fetch_emails not found'')]] \<and>
         filter is_call_tool (fst (filter_emails base_url environ env)) = []"
  using assms
  by (simp add: filter_emails_def run_simps Let_def gmail_tool_name_def)

theorem filter_emails_tool_not_found_witness:
  "list_tools mock_env = Inr [] \<and>
   snd (filter_emails '''' (\<lambda>k. None) mock_env) =
     Inr [JDict [(''error'', JStr ''Tool gmail_fetch_emails not found'')]] \<and>
   filter is_call_tool (fst (filter_emails '''' (\<lambda>k. None) mock_env)) = []"
  using filter_emails_tool_not_found
    [where env = mock_env and base_url = "''''" and environ = "\<lambda>k. None"
       and available_tools = "[]"]
  by (simp add: mock_defs)

section \<open>The caller's history object\<close>

lemmas heap_defs = lift_def then_heap_def try_heap_def new_list_def list_of_def list_plus_def
  json_dumps_heap_def generate_content_heap_def

text \<open>
  The run over the store makes the calls and yields the outcome of the run over values; the
  history it returns is the reference of the list that the run over values returns.
\<close>

lemma model_block_heap_simulates:
  assumes "current_history < length heap" and "contents_payload < length heap"
    and "contents_payload \<noteq> current_history"
    and "model_block_heap env backend_writes current_history user_prompt_part contents_payload
           mcp_tools_response heap = ((t, r), heap')"
  shows "model_block env (heap ! current_history) user_prompt_part (heap ! contents_payload)
           mcp_tools_response =
         (t, map_sum id (\<lambda>(c, u). (c, heap' ! u)) r)"
  using assms
  by (auto simp: model_block_heap_def model_block_def heap_defs Let_def first_def
        decode_tool_result_def and_then_def try_except_def emit_def ret_def raise_def
        nth_append text_turn_def
      split: sum.splits option.splits list.splits exn.splits attr.splits prod.splits if_splits)

lemma categorize_email_heap_simulates:
  assumes "history = None \<or> (\<exists>r. history = Some r \<and> r < length heap)"
    and "categorize_email_heap base_url environ env backend_writes email_body history heap =
           ((t, r), heap')"
  shows "categorize_email base_url environ env email_body
           (case history of None \<Rightarrow> None | Some a \<Rightarrow> Some (heap ! a)) =
         (t, map_sum id (\<lambda>(c, u). (c, heap' ! u)) r)"
  using assms
  by (auto simp: categorize_email_heap_def categorize_email_def heap_defs Let_def
        tools_block_raises json_dumps_def and_then_def try_except_def emit_def ret_def
        raise_def nth_append history_or_empty_def
      split: sum.splits option.splits prod.splits if_splits)

text \<open>
  Lines 72 to 130 change no list but the payload they hand to the backend, and every return
  of theirs is a new list: the turns of \<open>current_history\<close>, the user turn, a model turn.
\<close>

lemma model_block_heap_frame:
  assumes "current_history < length heap" and "contents_payload < length heap"
    and "contents_payload \<noteq> current_history"
    and "model_block_heap env backend_writes current_history user_prompt_part contents_payload
           mcp_tools_response heap = (result, heap')"
  shows "(\<forall>a < length heap. a \<noteq> contents_payload \<longrightarrow> heap' ! a = heap ! a) \<and>
         length heap \<le> length heap' \<and>
         (\<forall>t category updated_history. result = (t, Inr (category, updated_history)) \<longrightarrow>
            length heap \<le> updated_history \<and> updated_history < length heap' \<and>
            (\<exists>m. heap' ! updated_history = heap ! current_history @ [user_prompt_part, m] \<and>
                 role m = ''model'' \<and>
                 ((\<exists>p. parts m = [RawPart p]) \<or> (\<exists>s. m = text_turn ''model'' s))))"
  using assms
  by (auto simp: model_block_heap_def heap_defs Let_def first_def decode_tool_result_def
        and_then_def try_except_def emit_def ret_def raise_def nth_append text_turn_def
      split: sum.splits option.splits list.splits exn.splits attr.splits prod.splits if_splits)

lemma categorize_email_heap_frame:
  assumes "history = None \<or> (\<exists>r. history = Some r \<and> r < length heap)"
    and "categorize_email_heap base_url environ env backend_writes email_body history heap =
           (result, heap')"
  shows "(\<forall>a < length heap. heap' ! a = heap ! a) \<and> length heap \<le> length heap' \<and>
         (\<forall>t category updated_history. result = (t, Inr (category, updated_history)) \<longrightarrow>
            length heap \<le> updated_history \<and> updated_history < length heap' \<and>
            (\<exists>m. heap' ! updated_history =
                   (case history of None \<Rightarrow> [] | Some r \<Rightarrow> heap ! r) @
                     [user_turn email_body, m] \<and>
                 role m = ''model'' \<and>
                 ((\<exists>p. parts m = [RawPart p]) \<or> (\<exists>s. m = text_turn ''model'' s))))"
  using assms(2)
  by (auto simp: categorize_email_heap_def heap_defs Let_def tools_block_raises json_dumps_def
        and_then_def try_except_def emit_def ret_def raise_def nth_append
      split: sum.splits option.splits prod.splits if_splits)

lemma model_block_heap_run:
  "model_block_heap mock_env backend_clears 1 (user_turn ''Another email'') 2 []
     [initial_history, initial_history, initial_history @ [user_turn ''Another email'']] =
   (([GenerateContent (initial_history @ [user_turn ''Another email'']) [],
      CallTool ''test_tool'' [(''param'', JStr ''val'')]],
     Inr (JDict [(''category'', JStr ''promotions'')], 3)),
    [initial_history, initial_history, [],
     initial_history @
       [user_turn ''Another email'',
        \<lparr>role = ''model'', parts = [RawPart mock_function_call_part]\<rparr>]])"
  by (simp add: model_block_heap_def heap_defs eval_defs mock_defs initial_history_def
      backend_clears_def)

lemma categorize_email_heap_run:
  "categorize_email_heap '''' (\<lambda>k. None) mock_session_error_env backend_clears ''Another email''
       (Some 0) [initial_history] =
     (([Construct (StdioClient ''mcp-flight-search'' [''--connection_type'', ''stdio'']
                   (Some [(''SERP_API_KEY'', None)])),
        EnterTransport],
       Inr (JStr ''error_mcp_session_categorization'', 3)),
      [initial_history, initial_history, initial_history @ [user_turn ''Another email''],
       initial_history @
         [user_turn ''Another email'', text_turn ''model'' ''Error in MCP session.'']])"
  by (simp add: categorize_email_heap_def heap_defs eval_defs mock_defs initial_history_def)

text \<open>
  Claim C9. On every run of \<^verbatim>\<open>categorize_email\<close>, whatever the collaborators do and whatever the
  model backend writes into the list it is handed, every list object that existed before the
  call is left as it was, the caller's history among them; and what a run returns is an
  object that did not exist before the call and holds the turns of the caller's history, then
  the user turn, then a turn of role \<open>model\<close>. The same holds of lines 72 to 130 by
  themselves, for each of their returns: they change no list but the payload of line 30, which
  is not the caller's, and the history they return is a new object that holds the turns of
  \<open>current_history\<close>, the user turn and a model turn, the model's part or an error note.
\<close>

theorem categorize_email_leaves_history:
  "((history = None \<or> (\<exists>r. history = Some r \<and> r < length heap)) \<and>
    categorize_email_heap base_url environ env backend_writes email_body history heap =
      (result, heap') \<longrightarrow>
      (\<forall>a < length heap. heap' ! a = heap ! a) \<and>
      (\<forall>t category updated_history. result = (t, Inr (category, updated_history)) \<longrightarrow>
         length heap \<le> updated_history \<and> updated_history < length heap' \<and>
         (\<exists>m. heap' ! updated_history =
                (case history of None \<Rightarrow> [] | Some r \<Rightarrow> heap ! r) @
                  [user_turn email_body, m] \<and>
              role m = ''model'')))
   \<and>
   (current_history < length store \<and> contents_payload < length store \<and>
    contents_payload \<noteq> current_history \<and>
    model_block_heap env backend_writes current_history user_prompt_part contents_payload
      mcp_tools_response store = (result', store') \<longrightarrow>
      (\<forall>a < length store. a \<noteq> contents_payload \<longrightarrow> store' ! a = store ! a) \<and>
      (\<forall>t category updated_history. result' = (t, Inr (category, updated_history)) \<longrightarrow>
         length store \<le> updated_history \<and> updated_history < length store' \<and>
         (\<exists>m. store' ! updated_history = store ! current_history @ [user_prompt_part, m] \<and>
              role m = ''model'' \<and>
              ((\<exists>p. parts m = [RawPart p]) \<or> (\<exists>s. m = text_turn ''model'' s)))))"
proof (intro conjI impI)
  assume a: "(history = None \<or> (\<exists>r. history = Some r \<and> r < length heap)) \<and>
    categorize_email_heap base_url environ env backend_writes email_body history heap =
      (result, heap')"
  have frame: "(\<forall>a < length heap. heap' ! a = heap ! a) \<and> length heap \<le> length heap' \<and>
         (\<forall>t category updated_history. result = (t, Inr (category, updated_history)) \<longrightarrow>
            length heap \<le> updated_history \<and> updated_history < length heap' \<and>
            (\<exists>m. heap' ! updated_history =
                   (case history of None \<Rightarrow> [] | Some r \<Rightarrow> heap ! r) @
                     [user_turn email_body, m] \<and>
                 role m = ''model'' \<and>
                 ((\<exists>p. parts m = [RawPart p]) \<or> (\<exists>s. m = text_turn ''model'' s))))"
    by (rule categorize_email_heap_frame [OF conjunct1 [OF a] conjunct2 [OF a]])
  from frame show "\<forall>a < length heap. heap' ! a = heap ! a"
    by blast
  from frame show "\<forall>t category updated_history. result = (t, Inr (category, updated_history)) \<longrightarrow>
         length heap \<le> updated_history \<and> updated_history < length heap' \<and>
         (\<exists>m. heap' ! updated_history =
                (case history of None \<Rightarrow> [] | Some r \<Rightarrow> heap ! r) @
                  [user_turn email_body, m] \<and>
              role m = ''model'')"
    by blast
next
  assume b: "current_history < length store \<and> contents_payload < length store \<and>
    contents_payload \<noteq> current_history \<and>
    model_block_heap env backend_writes current_history user_prompt_part contents_payload
      mcp_tools_response store = (result', store')"
  have frame: "(\<forall>a < length store. a \<noteq> contents_payload \<longrightarrow> store' ! a = store ! a) \<and>
         length store \<le> length store' \<and>
         (\<forall>t category updated_history. result' = (t, Inr (category, updated_history)) \<longrightarrow>
            length store \<le> updated_history \<and> updated_history < length store' \<and>
            (\<exists>m. store' ! updated_history = store ! current_history @ [user_prompt_part, m] \<and>
                 role m = ''model'' \<and>
                 ((\<exists>p. parts m = [RawPart p]) \<or> (\<exists>s. m = text_turn ''model'' s))))"
    by (rule model_block_heap_frame
          [OF conjunct1 [OF b] conjunct1 [OF conjunct2 [OF b]]
              conjunct1 [OF conjunct2 [OF conjunct2 [OF b]]]
              conjunct2 [OF conjunct2 [OF conjunct2 [OF b]]]])
  from frame show "\<forall>a < length store. a \<noteq> contents_payload \<longrightarrow> store' ! a = store ! a"
    by blast
  from frame show "\<forall>t category updated_history. result' = (t, Inr (category, updated_history)) \<longrightarrow>
         length store \<le> updated_history \<and> updated_history < length store' \<and>
         (\<exists>m. store' ! updated_history = store ! current_history @ [user_prompt_part, m] \<and>
              role m = ''model'' \<and>
              ((\<exists>p. parts m = [RawPart p]) \<or> (\<exists>s. m = text_turn ''model'' s)))"
    by blast
qed

theorem categorize_email_leaves_history_witness:
  "categorize_email_heap '''' (\<lambda>k. None) mock_session_error_env backend_clears ''Another email''
       (Some 0) [initial_history] =
     (([Construct (StdioClient ''mcp-flight-search'' [''--connection_type'', ''stdio'']
                   (Some [(''SERP_API_KEY'', None)])),
        EnterTransport],
       Inr (JStr ''error_mcp_session_categorization'', 3)),
      [initial_history, initial_history, initial_history @ [user_turn ''Another email''],
       initial_history @
         [user_turn ''Another email'', text_turn ''model'' ''Error in MCP session.'']]) \<and>
   model_block_heap mock_env backend_clears 1 (user_turn ''Another email'') 2 []
     [initial_history, initial_history, initial_history @ [user_turn ''Another email'']] =
   (([GenerateContent (initial_history @ [user_turn ''Another email'']) [],
      CallTool ''test_tool'' [(''param'', JStr ''val'')]],
     Inr (JDict [(''category'', JStr ''promotions'')], 3)),
    [initial_history, initial_history, [],
     initial_history @
       [user_turn ''Another email'',
        \<lparr>role = ''model'', parts = [RawPart mock_function_call_part]\<rparr>]]) \<and>
   (0::nat) < length [initial_history] \<and>
   [initial_history, initial_history, initial_history @ [user_turn ''Another email''],
    initial_history @
      [user_turn ''Another email'', text_turn ''model'' ''Error in MCP session.'']] ! 0 =
     [initial_history] ! 0 \<and>
   [initial_history, initial_history, [],
    initial_history @
      [user_turn ''Another email'',
       \<lparr>role = ''model'', parts = [RawPart mock_function_call_part]\<rparr>]] ! 1 =
     [initial_history, initial_history, initial_history @ [user_turn ''Another email'']] ! 1"
  using categorize_email_leaves_history
    [where history = "Some 0" and heap = "[initial_history]" and base_url = "''''"
       and environ = "\<lambda>k. None" and env = mock_env and backend_writes = backend_clears
       and email_body = "''Another email''"
       and current_history = 1 and contents_payload = 2
       and user_prompt_part = "user_turn ''Another email''" and mcp_tools_response = "[]"
       and store = "[initial_history, initial_history,
                     initial_history @ [user_turn ''Another email'']]"]
    categorize_email_heap_run model_block_heap_run
  by simp

text \<open>
  Claim C10. \<^verbatim>\<open>filter_emails\<close> has no parameter. When the session is open and the discovered
  tool list holds the name \<^verbatim>\<open>gmail_fetch_emails\<close>, the run calls that tool once, with the
  arguments \<^verbatim>\<open>{"query": "unread", "max_results": 10}\<close>, and calls no other tool, whatever the
  base URL, the process environment and the collaborators are.
\<close>

theorem filter_emails_fixed_invocation:
  assumes "enter_transport env (filter_client_context base_url environ) = Inr ()"
    and "enter_session env = Inr ()" and "initialize env = Inr ()"
    and "list_tools env = Inr available_tools"
    and "''gmail_fetch_emails'' \<in> set (map tool_name available_tools)"
  shows "filter is_call_tool (fst (filter_emails base_url environ env)) =
           [CallTool ''gmail_fetch_emails''
              [(''query'', JStr ''unread''), (''max_results'', JInt 10)]]"
  using assms
  by (simp add: filter_emails_def run_simps Let_def gmail_tool_name_def dummy_args_def
      split: sum.splits)

theorem filter_emails_fixed_invocation_witness:
  "''gmail_fetch_emails'' \<in> set (map tool_name mock_gmail_tools) \<and>
   filter is_call_tool (fst (filter_emails '''' (\<lambda>k. None) mock_gmail_env)) =
     [CallTool ''gmail_fetch_emails''
        [(''query'', JStr ''unread''), (''max_results'', JInt 10)]]"
  using filter_emails_fixed_invocation
    [where env = mock_gmail_env and base_url = "''''" and environ = "\<lambda>k. None"
       and available_tools = mock_gmail_tools]
  by (simp add: mock_defs)

end
